theory Spec2Isabelle
  imports
    Complex_Main
    "HOL-Library.Char_ord"
    "HOL-Library.List_Lexorder"
    "HOL-Library.Product_Lexorder"
begin

section \<open>Data model\<close>

text \<open>
  The script \<^verbatim>\<open>benchmark_plot.py\<close> reads benchmark CSV files with pandas, averages the
  runtimes of every (Binary, Benchmark File) pair and plots the averages with matplotlib.

  Only three columns are ever read by the script, so a table row carries exactly these
  three cells. The two key cells are strings and the runtime cell is a number, as the
  input format prescribes; \<open>None\<close> is pandas' NaN, the value of a missing cell.
  Runtimes are real numbers: the rounding of 64-bit floats is outside this model.
  Strings are compared character by character, as Python compares \<^verbatim>\<open>str\<close> values.
\<close>

record row =
  Binary :: "string option"
  Benchmark_File :: "string option"
  Runtime_s :: "real option"

text \<open>
  A DataFrame: the column names of its header and its rows in index order. A header may
  name further columns; their cells are never read and are not represented.
\<close>

record frame =
  columns :: "string list"
  rows :: "row list"

text \<open>
  The exceptions that the script lets escape from pandas, matplotlib, pathlib and
  argparse.
\<close>

datatype error =
  FileNotFoundError string
  | EmptyDataError
  | ValueError
  | KeyError string
  | ZeroDivisionError
  | TypeError
  | SystemExit

text \<open>The file system maps a path to the table stored in the CSV file at that path.\<close>

type_synonym filesystem = "string \<Rightarrow> frame option"

type_synonym key = "string \<times> string"

section \<open>Aggregator: \<^verbatim>\<open>process_benchmark_data\<close>\<close>

subsection \<open>\<^verbatim>\<open>pd.read_csv\<close>\<close>

text \<open>
  \<^verbatim>\<open>pd.read_csv(file_path)\<close> raises when the file does not exist and when it has no header
  line at all; otherwise it returns the table of the file.
\<close>

definition read_csv :: "filesystem \<Rightarrow> string \<Rightarrow> error + frame" where
  "read_csv fs file_path =
     (case fs file_path of
        None \<Rightarrow> Inl (FileNotFoundError file_path)
      | Some df \<Rightarrow> if columns df = [] then Inl EmptyDataError else Inr df)"

text \<open>
  The loop \<^verbatim>\<open>for file_path in file_paths: dfs.append(pd.read_csv(file_path))\<close>: the first
  read that raises ends the run.
\<close>

fun read_all :: "filesystem \<Rightarrow> string list \<Rightarrow> error + frame list" where
  "read_all fs [] = Inr []"
| "read_all fs (file_path # file_paths) =
     (case read_csv fs file_path of
        Inl e \<Rightarrow> Inl e
      | Inr df \<Rightarrow>
          (case read_all fs file_paths of
             Inl e \<Rightarrow> Inl e
           | Inr dfs \<Rightarrow> Inr (df # dfs)))"

subsection \<open>\<^verbatim>\<open>pd.concat\<close>\<close>

text \<open>
  \<^verbatim>\<open>pd.concat(dfs, ignore_index=True)\<close> joins the frames on the union of their columns
  (\<^verbatim>\<open>join='outer'\<close> is the default): a row of a frame that lacks a column gets NaN in
  that column. \<open>reindex\<close> is this fill for the three cells of a row.
\<close>

definition reindex :: "string list \<Rightarrow> row \<Rightarrow> row" where
  "reindex cols r =
     \<lparr>Binary = (if ''Binary'' \<in> set cols then Binary r else None),
      Benchmark_File = (if ''Benchmark File'' \<in> set cols then Benchmark_File r else None),
      Runtime_s = (if ''Runtime (s)'' \<in> set cols then Runtime_s r else None)\<rparr>"

definition cells :: "frame \<Rightarrow> row list" where
  "cells df = map (reindex (columns df)) (rows df)"

text \<open>The union of the headers, every name at its first occurrence.\<close>

definition union_columns :: "frame list \<Rightarrow> string list" where
  "union_columns dfs = rev (remdups (rev (concat (map columns dfs))))"

text \<open>The rows of all frames in the order of the files; an empty list of frames raises.\<close>

definition input_rows :: "frame list \<Rightarrow> row list" where
  "input_rows dfs = concat (map cells dfs)"

definition concat_frames :: "frame list \<Rightarrow> error + frame" where
  "concat_frames dfs =
     (if dfs = [] then Inl ValueError
      else Inr \<lparr>columns = union_columns dfs, rows = input_rows dfs\<rparr>)"

subsection \<open>\<^verbatim>\<open>groupby(...)['Runtime (s)'].mean().reset_index()\<close>\<close>

text \<open>
  The group key of a row. \<^verbatim>\<open>groupby\<close> drops the rows that have NaN in a key column
  (\<^verbatim>\<open>dropna=True\<close> is the default), so such a row has no key.
\<close>

definition row_key :: "row \<Rightarrow> key option" where
  "row_key r =
     (case Binary r of
        None \<Rightarrow> None
      | Some b \<Rightarrow> (case Benchmark_File r of None \<Rightarrow> None | Some f \<Rightarrow> Some (b, f)))"

text \<open>
  \<^verbatim>\<open>groupby\<close> numbers the groups by the sorted distinct keys (\<^verbatim>\<open>sort=True\<close> is the
  default), first by Binary and then by Benchmark File.
\<close>

definition group_keys :: "row list \<Rightarrow> key list" where
  "group_keys rs = sort (remdups (List.map_filter row_key rs))"

text \<open>
  \<^verbatim>\<open>mean()\<close> makes one pass over the rows and keeps, for every group, the sum and the
  number of the runtimes seen so far. A row without key belongs to no group, and a NaN
  runtime is neither added nor counted.
\<close>

fun accumulate :: "row list \<Rightarrow> (key \<Rightarrow> real \<times> nat) \<Rightarrow> (key \<Rightarrow> real \<times> nat)" where
  "accumulate [] acc = acc"
| "accumulate (r # rs) acc =
     (case row_key r of
        None \<Rightarrow> accumulate rs acc
      | Some k \<Rightarrow>
          (case Runtime_s r of
             None \<Rightarrow> accumulate rs acc
           | Some v \<Rightarrow> accumulate rs (acc(k := (fst (acc k) + v, Suc (snd (acc k)))))))"

text \<open>
  The mean of a group is its sum divided by its count, and NaN for a count of zero. Sum
  and quotient are exact here: the rounding and the overflow of the 64-bit floats of
  pandas are not modelled. The mean of a single runtime is that runtime in floating point
  as well; the mean of several runtimes is the value of the program up to rounding only.
\<close>

definition group_mean :: "row list \<Rightarrow> key list \<Rightarrow> (key \<times> real option) list" where
  "group_mean rs ks =
     (let acc = accumulate rs (\<lambda>k. (0, 0))
      in map (\<lambda>k. (k, if snd (acc k) = 0 then None
                       else Some (fst (acc k) / real (snd (acc k))))) ks)"

text \<open>\<^verbatim>\<open>reset_index()\<close> turns the two key levels back into columns of the result.\<close>

definition reset_index :: "(key \<times> real option) list \<Rightarrow> frame" where
  "reset_index groups =
     \<lparr>columns = [''Binary'', ''Benchmark File'', ''Runtime (s)''],
      rows = map (\<lambda>((b, f), v). \<lparr>Binary = Some b, Benchmark_File = Some f, Runtime_s = v\<rparr>)
                 groups\<rparr>"

text \<open>
  \<^verbatim>\<open>groupby\<close> raises KeyError for a key column that the frame does not have, and the
  selection of \<^verbatim>\<open>'Runtime (s)'\<close> raises KeyError when that column is missing.
\<close>

definition groupby_mean :: "frame \<Rightarrow> error + frame" where
  "groupby_mean df =
     (if ''Binary'' \<notin> set (columns df) then Inl (KeyError ''Binary'')
      else if ''Benchmark File'' \<notin> set (columns df) then Inl (KeyError ''Benchmark File'')
      else if ''Runtime (s)'' \<notin> set (columns df)
        then Inl (KeyError ''Column not found: Runtime (s)'')
      else Inr (reset_index (group_mean (rows df) (group_keys (rows df)))))"

definition process_benchmark_data :: "filesystem \<Rightarrow> string list \<Rightarrow> error + frame" where
  "process_benchmark_data fs file_paths =
     (case read_all fs file_paths of
        Inl e \<Rightarrow> Inl e
      | Inr dfs \<Rightarrow>
          (case concat_frames dfs of
             Inl e \<Rightarrow> Inl e
           | Inr combined_df \<Rightarrow> groupby_mean combined_df))"

section \<open>Chart renderer: \<^verbatim>\<open>create_bar_chart\<close>\<close>

subsection \<open>\<^verbatim>\<open>pathlib\<close>: \<^verbatim>\<open>Path(p).name\<close> and \<^verbatim>\<open>Path(p).stem\<close>\<close>

text \<open>\<^verbatim>\<open>str.split(sep)\<close> for a separator of one character.\<close>

fun split_sep :: "char \<Rightarrow> string \<Rightarrow> string list" where
  "split_sep sep [] = [[]]"
| "split_sep sep (c # cs) =
     (if c = sep then [] # split_sep sep cs
      else (case split_sep sep cs of
              [] \<Rightarrow> [[c]]
            | w # ws \<Rightarrow> (c # w) # ws))"

text \<open>
  The components of a POSIX path (Python 3.12): the pieces between slashes, without the
  empty pieces and without the pieces that are a single dot.
\<close>

definition path_parts :: "string \<Rightarrow> string list" where
  "path_parts p = filter (\<lambda>x. x \<noteq> [] \<and> x \<noteq> ''.'') (split_sep (CHR ''/'') p)"

text \<open>\<^verbatim>\<open>Path(p).name\<close>: the last component, and the empty string when there is none.\<close>

definition path_name :: "string \<Rightarrow> string" where
  "path_name p = (if path_parts p = [] then [] else last (path_parts p))"

text \<open>\<^verbatim>\<open>str.rfind(c)\<close>: the index of the last occurrence of \<open>c\<close>, or \<open>-1\<close>.\<close>

fun rfind :: "char \<Rightarrow> string \<Rightarrow> int" where
  "rfind c [] = -1"
| "rfind c (x # xs) =
     (let i = rfind c xs
      in if 0 \<le> i then i + 1 else if x = c then 0 else -1)"

text \<open>
  \<^verbatim>\<open>Path(p).stem\<close>: the name up to its last dot, when that dot is neither the first nor
  the last character of the name; the whole name otherwise.
\<close>

definition path_stem :: "string \<Rightarrow> string" where
  "path_stem p =
     (let name = path_name p; i = rfind (CHR ''.'') name
      in if 0 < i \<and> i < int (length name) - 1 then take (nat i) name else name)"

subsection \<open>The calls into the plotting library\<close>

text \<open>
  The renderer returns nothing; all it does is call matplotlib, seaborn and \<^verbatim>\<open>print\<close>.
  A run of the renderer is therefore the list of these calls in the order they are made,
  together with the exception that ended the run, if one did.
  \<open>Bar xs heights width label\<close> is \<^verbatim>\<open>plt.bar(xs, heights, width, label=label)\<close>.
\<close>

datatype plt_call =
  Style_use string
  | Set_palette string
  | Figure real real
  | Bar "real list" "real option list" real string
  | Xlabel string
  | Ylabel string
  | Title string
  | Xticks "nat list" "string list" real
  | Legend
  | Tight_layout
  | Savefig string
  | Print string
  | Show

text \<open>
  \<^verbatim>\<open>Series.unique()\<close>: the distinct values in the order of their first appearance
  (NaN is one of the values when it occurs).
\<close>

definition unique :: "'a list \<Rightarrow> 'a list" where
  "unique xs = rev (remdups (rev xs))"

text \<open>\<^verbatim>\<open>data[name]\<close> raises KeyError when the frame has no column of that name.\<close>

definition column_Binary :: "frame \<Rightarrow> error + string option list" where
  "column_Binary data =
     (if ''Binary'' \<in> set (columns data) then Inr (map Binary (rows data))
      else Inl (KeyError ''Binary''))"

definition column_Benchmark_File :: "frame \<Rightarrow> error + string option list" where
  "column_Benchmark_File data =
     (if ''Benchmark File'' \<in> set (columns data) then Inr (map Benchmark_File (rows data))
      else Inl (KeyError ''Benchmark File''))"

definition column_Runtime_s :: "frame \<Rightarrow> row list \<Rightarrow> error + real option list" where
  "column_Runtime_s data rs =
     (if ''Runtime (s)'' \<in> set (columns data) then Inr (map Runtime_s rs)
      else Inl (KeyError ''Runtime (s)''))"

text \<open>
  \<^verbatim>\<open>plt.bar\<close> broadcasts the positions against the heights: the two lists must have the
  same length unless one of them has length one; otherwise matplotlib raises ValueError.
  The result is the list of the bars drawn, each with its position and its height.
\<close>

definition broadcast_bars :: "real list \<Rightarrow> real option list \<Rightarrow> error + (real \<times> real option) list" where
  "broadcast_bars xs heights =
     (if length xs = length heights then Inr (zip xs heights)
      else if length heights = 1 then Inr (map (\<lambda>x. (x, hd heights)) xs)
      else if length xs = 1 then Inr (map (\<lambda>h. (hd xs, h)) heights)
      else Inl ValueError)"

text \<open>
  One round of the loop over the binaries, for the binary at index \<open>i\<close>. The arguments of
  \<^verbatim>\<open>plt.bar\<close> are evaluated from left to right before the call: the positions, the runtime
  column of the rows of this binary, and the label. A comparison with NaN is false for every
  row, and \<^verbatim>\<open>Path\<close> of NaN raises TypeError.
\<close>

definition bar_call :: "frame \<Rightarrow> string option list \<Rightarrow> real \<Rightarrow> nat \<Rightarrow> string option \<Rightarrow> error + plt_call" where
  "bar_call data benchmarks bar_width i binary =
     (let binary_data = filter (\<lambda>r. binary \<noteq> None \<and> Binary r = binary) (rows data);
          positions = [0..<length benchmarks];
          xs = map (\<lambda>p. real p + real i * bar_width) positions
      in case column_Runtime_s data binary_data of
           Inl e \<Rightarrow> Inl e
         | Inr heights \<Rightarrow>
             (case binary of
                None \<Rightarrow> Inl TypeError
              | Some b \<Rightarrow>
                  (case broadcast_bars xs heights of
                     Inl e \<Rightarrow> Inl e
                   | Inr bars \<Rightarrow> Inr (Bar xs heights bar_width (path_name b)))))"

text \<open>
  The loop \<^verbatim>\<open>for i, binary in enumerate(...)\<close>: the calls made, and the exception of the
  first round that raised.
\<close>

fun bar_loop :: "frame \<Rightarrow> string option list \<Rightarrow> real \<Rightarrow> nat \<Rightarrow> string option list \<Rightarrow> plt_call list \<times> error option" where
  "bar_loop data benchmarks bar_width i [] = ([], None)"
| "bar_loop data benchmarks bar_width i (binary # binaries) =
     (case bar_call data benchmarks bar_width i binary of
        Inl e \<Rightarrow> ([], Some e)
      | Inr c \<Rightarrow>
          (case bar_loop data benchmarks bar_width (Suc i) binaries of
             (cs, e) \<Rightarrow> (c # cs, e)))"

text \<open>\<^verbatim>\<open>[Path(b).stem for b in benchmarks]\<close>; a NaN among the benchmarks raises TypeError.\<close>

fun stems :: "string option list \<Rightarrow> error + string list" where
  "stems [] = Inr []"
| "stems (None # bs) = Inl TypeError"
| "stems (Some b # bs) =
     (case stems bs of Inl e \<Rightarrow> Inl e | Inr ls \<Rightarrow> Inr (path_stem b # ls))"

text \<open>
  What \<^verbatim>\<open>plt.savefig\<close> does with a path is decided outside the script, by matplotlib and
  the file system: it returns after writing the figure, or it raises, for instance
  FileNotFoundError for a directory that does not exist or ValueError for a format that
  is not supported. This outcome is a parameter of the renderer: \<open>None\<close> when the call
  returns, and the exception when it raises.
\<close>

type_synonym savefig_outcome = "string \<Rightarrow> error option"

text \<open>
  The end of the renderer: \<^verbatim>\<open>if output_path:\<close> is false for \<^verbatim>\<open>None\<close> and for the empty
  string. When \<^verbatim>\<open>plt.savefig\<close> raises, \<^verbatim>\<open>print\<close> is not reached and the exception ends
  the run.
\<close>

definition save_or_show :: "savefig_outcome \<Rightarrow> string option \<Rightarrow> plt_call list \<times> error option" where
  "save_or_show savefig output_path =
     (case output_path of
        None \<Rightarrow> ([Show], None)
      | Some p \<Rightarrow>
          if p \<noteq> [] then
            (case savefig p of
               Some e \<Rightarrow> ([Savefig p], Some e)
             | None \<Rightarrow> ([Savefig p, Print (''Chart saved to '' @ p)], None))
          else ([Show], None))"

text \<open>
  The calls that do not depend on the data: the set-up of style, palette and figure before
  the bars are drawn, and the fixed axis labels and title after them.
\<close>

definition setup_calls :: "plt_call list" where
  "setup_calls = [Style_use ''seaborn-v0_8'', Set_palette ''husl'', Figure 12 6]"

definition axis_labels :: "plt_call list" where
  "axis_labels =
     [Xlabel ''Benchmark'', Ylabel ''Average Runtime (seconds)'',
      Title ''Benchmark Performance Comparison'']"

text \<open>
  \<^verbatim>\<open>plt.xticks(range(len(benchmarks)), [...], rotation=45)\<close>, \<^verbatim>\<open>plt.legend()\<close> and
  \<^verbatim>\<open>plt.tight_layout()\<close>.
\<close>

definition ticks_and_legend :: "nat \<Rightarrow> string list \<Rightarrow> plt_call list" where
  "ticks_and_legend n tick_names = [Xticks [0..<n] tick_names 45, Legend, Tight_layout]"

definition create_bar_chart :: "savefig_outcome \<Rightarrow> frame \<Rightarrow> string option \<Rightarrow> plt_call list \<times> error option" where
  "create_bar_chart savefig data output_path =
     (case column_Benchmark_File data of
        Inl e \<Rightarrow> (setup_calls, Some e)
      | Inr benchmark_column \<Rightarrow>
          (let benchmarks = unique benchmark_column
           in case column_Binary data of
                Inl e \<Rightarrow> (setup_calls, Some e)
              | Inr binary_column \<Rightarrow>
                  if length (unique binary_column) = 0 then (setup_calls, Some ZeroDivisionError)
                  else
                    (let bar_width = 0.8 / real (length (unique binary_column))
                     in case bar_loop data benchmarks bar_width 0 (unique binary_column) of
                          (bars, Some e) \<Rightarrow> (setup_calls @ bars, Some e)
                        | (bars, None) \<Rightarrow>
                            (case stems benchmarks of
                               Inl e \<Rightarrow> (setup_calls @ bars @ axis_labels, Some e)
                             | Inr tick_names \<Rightarrow>
                                 (case save_or_show savefig output_path of
                                    (closing, e) \<Rightarrow>
                                      (setup_calls @ bars @ axis_labels @
                                       ticks_and_legend (length benchmarks) tick_names @
                                       closing, e))))))"

section \<open>\<^verbatim>\<open>main\<close>\<close>

text \<open>
  The command line is taken as parsed: the positional file paths and the optional output
  path. \<^verbatim>\<open>nargs='+'\<close> makes argparse exit when no file is given. The chart is rendered
  only after \<^verbatim>\<open>process_benchmark_data\<close> has returned.
\<close>

definition main :: "savefig_outcome \<Rightarrow> filesystem \<Rightarrow> string list \<Rightarrow> string option \<Rightarrow> plt_call list \<times> error option" where
  "main savefig fs files output =
     (if files = [] then ([], Some SystemExit)
      else case process_benchmark_data fs files of
             Inl e \<Rightarrow> ([], Some e)
           | Inr data \<Rightarrow> create_bar_chart savefig data output)"

section \<open>Notions of the specification\<close>

text \<open>
  The input rows of a pair: the rows of the combined table whose Binary and Benchmark
  File cells equal the pair.
\<close>

definition matching_rows :: "string \<Rightarrow> string \<Rightarrow> row list \<Rightarrow> row list" where
  "matching_rows b f rs = filter (\<lambda>r. Binary r = Some b \<and> Benchmark_File r = Some f) rs"

text \<open>The runtime values of some rows: the numbers in their runtime cells.\<close>

definition runtime_values :: "row list \<Rightarrow> real list" where
  "runtime_values rs = List.map_filter Runtime_s rs"

text \<open>
  The arithmetic mean, sum divided by count. Without any value there is no mean, which a
  table shows as NaN.
\<close>

definition arithmetic_mean :: "real list \<Rightarrow> real option" where
  "arithmetic_mean vs = (if vs = [] then None else Some (sum_list vs / real (length vs)))"

text \<open>The keys that occur in a file, and the keys of the rows of a result in row order.\<close>

definition frame_keys :: "frame \<Rightarrow> key set" where
  "frame_keys df = set (List.map_filter row_key (cells df))"

definition output_keys :: "frame \<Rightarrow> key list" where
  "output_keys out = List.map_filter row_key (rows out)"

section \<open>Example inputs\<close>

text \<open>
  Three files. \<^verbatim>\<open>a.csv\<close> holds the example of the specification, two runs of
  \<^verbatim>\<open>bin1\<close> on \<^verbatim>\<open>b1.lox\<close> that took 1.0 and 3.0 seconds, and one run on another benchmark.
  \<^verbatim>\<open>b.csv\<close> holds runs of a second binary, and \<^verbatim>\<open>c.csv\<close> has no runtime column.
\<close>

definition file_a :: frame where
  "file_a =
     \<lparr>columns = [''Binary'', ''Benchmark File'', ''Runtime (s)''],
      rows = [\<lparr>Binary = Some ''bin1'', Benchmark_File = Some ''b1.lox'', Runtime_s = Some 1\<rparr>,
              \<lparr>Binary = Some ''bin1'', Benchmark_File = Some ''b1.lox'', Runtime_s = Some 3\<rparr>,
              \<lparr>Binary = Some ''bin1'', Benchmark_File = Some ''b2.lox'', Runtime_s = Some 5\<rparr>]\<rparr>"

definition file_b :: frame where
  "file_b =
     \<lparr>columns = [''Binary'', ''Benchmark File'', ''Runtime (s)''],
      rows = [\<lparr>Binary = Some ''bin0'', Benchmark_File = Some ''b2.lox'', Runtime_s = Some 4\<rparr>,
              \<lparr>Binary = Some ''bin0'', Benchmark_File = Some ''b1.lox'', Runtime_s = Some 2\<rparr>]\<rparr>"

definition file_c :: frame where
  "file_c =
     \<lparr>columns = [''Binary'', ''Benchmark File''],
      rows = [\<lparr>Binary = Some ''bin2'', Benchmark_File = Some ''b1.lox'', Runtime_s = None\<rparr>,
              \<lparr>Binary = Some ''bin2'', Benchmark_File = Some ''b2.lox'', Runtime_s = None\<rparr>]\<rparr>"

definition example_fs :: filesystem where
  "example_fs p =
     (if p = ''a.csv'' then Some file_a
      else if p = ''b.csv'' then Some file_b
      else if p = ''c.csv'' then Some file_c
      else None)"

text \<open>The aggregated tables of \<^verbatim>\<open>a.csv\<close> with \<^verbatim>\<open>b.csv\<close> and of \<^verbatim>\<open>a.csv\<close> with \<^verbatim>\<open>c.csv\<close>.\<close>

definition out_ab :: frame where
  "out_ab =
     \<lparr>columns = [''Binary'', ''Benchmark File'', ''Runtime (s)''],
      rows = [\<lparr>Binary = Some ''bin0'', Benchmark_File = Some ''b1.lox'', Runtime_s = Some 2\<rparr>,
              \<lparr>Binary = Some ''bin0'', Benchmark_File = Some ''b2.lox'', Runtime_s = Some 4\<rparr>,
              \<lparr>Binary = Some ''bin1'', Benchmark_File = Some ''b1.lox'', Runtime_s = Some 2\<rparr>,
              \<lparr>Binary = Some ''bin1'', Benchmark_File = Some ''b2.lox'', Runtime_s = Some 5\<rparr>]\<rparr>"

definition out_ac :: frame where
  "out_ac =
     \<lparr>columns = [''Binary'', ''Benchmark File'', ''Runtime (s)''],
      rows = [\<lparr>Binary = Some ''bin1'', Benchmark_File = Some ''b1.lox'', Runtime_s = Some 2\<rparr>,
              \<lparr>Binary = Some ''bin1'', Benchmark_File = Some ''b2.lox'', Runtime_s = Some 5\<rparr>,
              \<lparr>Binary = Some ''bin2'', Benchmark_File = Some ''b1.lox'', Runtime_s = None\<rparr>,
              \<lparr>Binary = Some ''bin2'', Benchmark_File = Some ''b2.lox'', Runtime_s = None\<rparr>]\<rparr>"

text \<open>The calls that render \<open>out_ac\<close> on the screen.\<close>

definition chart_ac :: "plt_call list" where
  "chart_ac =
     [Style_use ''seaborn-v0_8'', Set_palette ''husl'', Figure 12 6,
      Bar [0, 1] [Some 2, Some 5] (2 / 5) ''bin1'',
      Bar [2 / 5, 7 / 5] [None, None] (2 / 5) ''bin2'',
      Xlabel ''Benchmark'', Ylabel ''Average Runtime (seconds)'',
      Title ''Benchmark Performance Comparison'',
      Xticks [0, 1] [''b1'', ''b2''] 45, Legend, Tight_layout, Show]"

text \<open>
  A table with paths as they occur in practice: two interpreters, each run on the same
  two benchmark files.
\<close>

definition out_lox :: frame where
  "out_lox =
     \<lparr>columns = [''Binary'', ''Benchmark File'', ''Runtime (s)''],
      rows = [\<lparr>Binary = Some ''build/clox'', Benchmark_File = Some ''benchmarks/fib.lox'',
                Runtime_s = Some (3 / 2)\<rparr>,
              \<lparr>Binary = Some ''build/clox'', Benchmark_File = Some ''benchmarks/loop.lox'',
                Runtime_s = Some 2\<rparr>,
              \<lparr>Binary = Some ''build/jlox'', Benchmark_File = Some ''benchmarks/fib.lox'',
                Runtime_s = Some 30\<rparr>,
              \<lparr>Binary = Some ''build/jlox'', Benchmark_File = Some ''benchmarks/loop.lox'',
                Runtime_s = Some 41\<rparr>]\<rparr>"

definition chart_lox :: "plt_call list" where
  "chart_lox =
     [Style_use ''seaborn-v0_8'', Set_palette ''husl'', Figure 12 6,
      Bar [0, 1] [Some (3 / 2), Some 2] (2 / 5) ''clox'',
      Bar [2 / 5, 7 / 5] [Some 30, Some 41] (2 / 5) ''jlox'',
      Xlabel ''Benchmark'', Ylabel ''Average Runtime (seconds)'',
      Title ''Benchmark Performance Comparison'',
      Xticks [0, 1] [''fib'', ''loop''] 45, Legend, Tight_layout]"

text \<open>
  A file of three runs in which \<^verbatim>\<open>bin1\<close> was timed on \<^verbatim>\<open>b2.lox\<close> only, while \<^verbatim>\<open>bin2\<close>
  was timed on both benchmarks; its aggregated table, and the calls that render it.
\<close>

definition file_e :: frame where
  "file_e =
     \<lparr>columns = [''Binary'', ''Benchmark File'', ''Runtime (s)''],
      rows = [\<lparr>Binary = Some ''bin1'', Benchmark_File = Some ''b2.lox'', Runtime_s = Some 1\<rparr>,
              \<lparr>Binary = Some ''bin2'', Benchmark_File = Some ''b1.lox'', Runtime_s = Some 2\<rparr>,
              \<lparr>Binary = Some ''bin2'', Benchmark_File = Some ''b2.lox'', Runtime_s = Some 3\<rparr>]\<rparr>"

definition fs_e :: filesystem where
  "fs_e p = (if p = ''e.csv'' then Some file_e else None)"

definition chart_e :: "plt_call list" where
  "chart_e =
     [Style_use ''seaborn-v0_8'', Set_palette ''husl'', Figure 12 6,
      Bar [0, 1] [Some 1] (2 / 5) ''bin1'',
      Bar [2 / 5, 7 / 5] [Some 2, Some 3] (2 / 5) ''bin2'',
      Xlabel ''Benchmark'', Ylabel ''Average Runtime (seconds)'',
      Title ''Benchmark Performance Comparison'',
      Xticks [0, 1] [''b2'', ''b1''] 45, Legend, Tight_layout, Show]"

text \<open>
  A file of five runs over three benchmarks in which \<^verbatim>\<open>bin2\<close> was not timed on
  \<^verbatim>\<open>b2.lox\<close>.
\<close>

definition file_f :: frame where
  "file_f =
     \<lparr>columns = [''Binary'', ''Benchmark File'', ''Runtime (s)''],
      rows = [\<lparr>Binary = Some ''bin1'', Benchmark_File = Some ''b1.lox'', Runtime_s = Some 1\<rparr>,
              \<lparr>Binary = Some ''bin1'', Benchmark_File = Some ''b2.lox'', Runtime_s = Some 2\<rparr>,
              \<lparr>Binary = Some ''bin1'', Benchmark_File = Some ''b3.lox'', Runtime_s = Some 3\<rparr>,
              \<lparr>Binary = Some ''bin2'', Benchmark_File = Some ''b1.lox'', Runtime_s = Some 4\<rparr>,
              \<lparr>Binary = Some ''bin2'', Benchmark_File = Some ''b3.lox'', Runtime_s = Some 5\<rparr>]\<rparr>"

definition fs_f :: filesystem where
  "fs_f p = (if p = ''f.csv'' then Some file_f else None)"


text \<open>
  Two outcomes of \<^verbatim>\<open>plt.savefig\<close>: it always returns, or it raises FileNotFoundError for
  every path into a directory, as it does where no directory exists.
\<close>

definition savefig_ok :: savefig_outcome where
  "savefig_ok p = None"


section \<open>Notions of the specification for the chart\<close>

text \<open>The legend entry that a call adds: the label of a call of \<^verbatim>\<open>plt.bar\<close>.\<close>

fun bar_label :: "plt_call \<Rightarrow> string option" where
  "bar_label (Bar xs heights width label) = Some label"
| "bar_label c = None"

text \<open>The width of the bars that a call draws.\<close>

fun bar_width_of :: "plt_call \<Rightarrow> real option" where
  "bar_width_of (Bar xs heights width label) = Some width"
| "bar_width_of c = None"

text \<open>The ticks that a call puts on the x-axis, each with its label.\<close>

fun tick_labels :: "plt_call \<Rightarrow> (nat \<times> string) list" where
  "tick_labels (Xticks positions labels rotation) = zip positions labels"
| "tick_labels c = []"

text \<open>
  The paths that a call hands to \<^verbatim>\<open>plt.savefig\<close>. No other call of the script writes a
  file.
\<close>

fun savefig_paths :: "plt_call \<Rightarrow> string list" where
  "savefig_paths (Savefig p) = [p]"
| "savefig_paths c = []"

text \<open>The lines that a call prints.\<close>

fun printed_lines :: "plt_call \<Rightarrow> string list" where
  "printed_lines (Print line) = [line]"
| "printed_lines c = []"

text \<open>The number of distinct binaries of a table.\<close>

definition distinct_binaries :: "frame \<Rightarrow> nat" where
  "distinct_binaries data = card (set (map Binary (rows data)))"

text \<open>
  The bars that a call draws, each with its position and height, after the broadcast of
  \<^verbatim>\<open>plt.bar\<close>.
\<close>

fun bars_of :: "plt_call \<Rightarrow> (real \<times> real option) list" where
  "bars_of (Bar xs heights width label) =
     (case broadcast_bars xs heights of Inl e \<Rightarrow> [] | Inr bars \<Rightarrow> bars)"
| "bars_of c = []"

text \<open>
  The mean runtime that a table records for a binary and a benchmark, if it has a row for
  that pair.
\<close>

definition table_runtime :: "frame \<Rightarrow> string \<Rightarrow> string \<Rightarrow> real option option" where
  "table_runtime data b f =
     map_option Runtime_s
       (find (\<lambda>r. Binary r = Some b \<and> Benchmark_File r = Some f) (rows data))"

text \<open>
  A complete table: one row for every binary and every benchmark, the binaries in order
  and, for each binary, the benchmarks in order. \<open>v b f\<close> is the mean runtime of binary
  \<open>b\<close> on benchmark \<open>f\<close>.
\<close>

definition grid_rows :: "string list \<Rightarrow> string list \<Rightarrow> (string \<Rightarrow> string \<Rightarrow> real option) \<Rightarrow> row list" where
  "grid_rows binaries benchmarks v =
     concat (map (\<lambda>b. map (\<lambda>f. \<lparr>Binary = Some b, Benchmark_File = Some f, Runtime_s = v b f\<rparr>)
                          benchmarks) binaries)"

text \<open>
  The grouped bars of a complete table: the binary at index \<open>i\<close> gets, for the benchmark at
  index \<open>p\<close>, a bar at position \<open>p + i * width\<close> whose height is the mean runtime of that
  binary on that benchmark.
\<close>

definition grouped_bars :: "string list \<Rightarrow> (string \<Rightarrow> string \<Rightarrow> real option) \<Rightarrow> real \<Rightarrow> nat \<Rightarrow> string list \<Rightarrow> plt_call list" where
  "grouped_bars benchmarks v width i binaries =
     map (\<lambda>(j, b). Bar (map (\<lambda>p. real p + real j * width) [0..<length benchmarks])
                        (map (v b) benchmarks) width (path_name b))
         (List.enumerate i binaries)"

section \<open>Properties of the aggregator\<close>

subsection \<open>The accumulation computes the mean of the matching rows\<close>

lemma row_key_Some:
  "row_key r = Some (b, f) \<longleftrightarrow> Binary r = Some b \<and> Benchmark_File r = Some f"
  by (auto simp: row_key_def split: option.splits)

lemma matching_rows_Nil: "matching_rows b f [] = []"
  by (simp add: matching_rows_def)

lemma matching_rows_Cons:
  "matching_rows b f (r # rs) =
     (if row_key r = Some (b, f) then r # matching_rows b f rs else matching_rows b f rs)"
  by (simp add: matching_rows_def row_key_Some)

lemma runtime_values_Nil: "runtime_values [] = []"
  by (simp add: runtime_values_def)

lemma runtime_values_Cons:
  "runtime_values (r # rs) =
     (case Runtime_s r of None \<Rightarrow> runtime_values rs | Some v \<Rightarrow> v # runtime_values rs)"
  by (simp add: runtime_values_def split: option.splits)

text \<open>
  The invariant of the pass over the rows: the accumulator of a key has grown by the sum
  and by the number of the runtime values of the rows of that key.
\<close>

lemma accumulate_spec:
  "accumulate rs acc (b, f) =
     (fst (acc (b, f)) + sum_list (runtime_values (matching_rows b f rs)),
      snd (acc (b, f)) + length (runtime_values (matching_rows b f rs)))"
proof (induction rs arbitrary: acc)
  case Nil
  show ?case by (simp add: runtime_values_Nil matching_rows_Nil)
next
  case (Cons r rs)
  show ?case
    by (simp add: Cons.IH matching_rows_Cons runtime_values_Cons split: option.splits)
qed

lemma group_mean_value:
  "group_mean rs ks =
     map (\<lambda>k. (k, arithmetic_mean (runtime_values (matching_rows (fst k) (snd k) rs)))) ks"
proof -
  have "accumulate rs (\<lambda>k. (0, 0)) k =
          (sum_list (runtime_values (matching_rows (fst k) (snd k) rs)),
           length (runtime_values (matching_rows (fst k) (snd k) rs)))" for k
    using accumulate_spec [of rs "\<lambda>k. (0, 0)" "fst k" "snd k"] by simp
  then show ?thesis
    by (simp add: group_mean_def Let_def arithmetic_mean_def)
qed

subsection \<open>The group keys\<close>

lemma set_map_filter: "set (List.map_filter g xs) = {y. \<exists>x \<in> set xs. g x = Some y}"
  by (induction xs) (auto split: option.splits)

lemma set_group_keys: "set (group_keys rs) = {k. \<exists>r \<in> set rs. row_key r = Some k}"
  by (simp add: group_keys_def set_map_filter)

lemma distinct_group_keys: "distinct (group_keys rs)"
  by (simp add: group_keys_def)

lemma sorted_group_keys: "sorted (group_keys rs)"
  by (simp add: group_keys_def)

lemma group_keys_sorted_list_of_set:
  "group_keys rs = sorted_list_of_set (set (List.map_filter row_key rs))"
  by (simp add: group_keys_def sorted_list_of_set_sort_remdups)

lemma matching_rows_nonempty:
  "matching_rows b f rs \<noteq> [] \<longleftrightarrow> (b, f) \<in> set (group_keys rs)"
  by (auto simp: set_group_keys matching_rows_def filter_empty_conv row_key_Some)

subsection \<open>The table that a successful run returns\<close>

lemma process_Inr:
  assumes "read_all fs file_paths = Inr dfs"
      and "process_benchmark_data fs file_paths = Inr out"
  shows "out = reset_index (group_mean (input_rows dfs) (group_keys (input_rows dfs)))"
  using assms
  by (auto simp: process_benchmark_data_def concat_frames_def groupby_mean_def
           split: if_splits)

lemma rows_reset_index:
  "rows (reset_index groups) =
     map (\<lambda>((b, f), v). \<lparr>Binary = Some b, Benchmark_File = Some f, Runtime_s = v\<rparr>) groups"
  by (simp add: reset_index_def)

lemma rows_out:
  assumes "read_all fs file_paths = Inr dfs"
      and "process_benchmark_data fs file_paths = Inr out"
  shows "rows out =
     map (\<lambda>(b, f). \<lparr>Binary = Some b, Benchmark_File = Some f,
            Runtime_s = arithmetic_mean (runtime_values (matching_rows b f (input_rows dfs)))\<rparr>)
       (group_keys (input_rows dfs))"
  by (simp add: process_Inr [OF assms] rows_reset_index group_mean_value o_def split_def)

lemma output_keys_out:
  assumes "read_all fs file_paths = Inr dfs"
      and "process_benchmark_data fs file_paths = Inr out"
  shows "output_keys out = group_keys (input_rows dfs)"
    and "length (rows out) = length (group_keys (input_rows dfs))"
proof -
  have "List.map_filter row_key (map (\<lambda>(b, f). \<lparr>Binary = Some b, Benchmark_File = Some f,
            Runtime_s = g b f\<rparr>) ks) = ks" for g and ks :: "key list"
    by (induction ks) (auto simp: row_key_def)
  then show "output_keys out = group_keys (input_rows dfs)"
    by (simp add: output_keys_def rows_out [OF assms])
  show "length (rows out) = length (group_keys (input_rows dfs))"
    by (simp add: rows_out [OF assms])
qed

lemma set_input_rows_keys:
  "set (List.map_filter row_key (input_rows dfs)) = (\<Union>df \<in> set dfs. frame_keys df)"
  by (auto simp: set_map_filter input_rows_def frame_keys_def)

subsection \<open>The example files\<close>

lemmas example_defs =
  process_benchmark_data_def read_csv_def concat_frames_def union_columns_def
  input_rows_def cells_def reindex_def groupby_mean_def group_keys_def row_key_def
  group_mean_def reset_index_def example_fs_def file_a_def file_b_def file_c_def
  out_ab_def out_ac_def

lemma read_ab: "read_all example_fs [''a.csv'', ''b.csv''] = Inr [file_a, file_b]"
  by (simp add: read_csv_def example_fs_def file_a_def file_b_def)

lemma process_ab: "process_benchmark_data example_fs [''a.csv'', ''b.csv''] = Inr out_ab"
  by (simp add: example_defs)

lemma read_ac: "read_all example_fs [''a.csv'', ''c.csv''] = Inr [file_a, file_c]"
  by (simp add: read_csv_def example_fs_def file_a_def file_c_def)

lemma process_ac: "process_benchmark_data example_fs [''a.csv'', ''c.csv''] = Inr out_ac"
  by (simp add: example_defs)

lemma read_c: "read_all example_fs [''c.csv''] = Inr [file_c]"
  by (simp add: read_csv_def example_fs_def file_c_def)

subsection \<open>The mean of every pair\<close>

text \<open>
  The rows that enter a mean. Whenever the files can be read and the aggregation returns a
  table, every row of that table carries a pair that occurs in the input, together with
  the sum divided by the count of the runtime values of precisely the input rows whose
  Binary and Benchmark File equal that pair; and every pair of the input has such a row. A
  missing runtime cell has no value: it is not part of the sum and not counted, and the
  mean of a pair without any value is NaN.

  The sum and the quotient are those of the real numbers. pandas computes both in 64-bit
  floating point, where the sum is rounded and may overflow, so the statement fixes which
  rows are averaged and says nothing about the floating-point value of a mean of two or
  more runtimes.
\<close>

lemma exact_mean_of_matching_rows:
  assumes "read_all fs file_paths = Inr dfs"
      and "process_benchmark_data fs file_paths = Inr out"
  shows "(\<forall>r \<in> set (rows out). \<exists>b f.
            Binary r = Some b \<and> Benchmark_File r = Some f \<and>
            matching_rows b f (input_rows dfs) \<noteq> [] \<and>
            Runtime_s r = arithmetic_mean (runtime_values (matching_rows b f (input_rows dfs))))
       \<and> (\<forall>b f. matching_rows b f (input_rows dfs) \<noteq> [] \<longrightarrow>
            (\<exists>r \<in> set (rows out). Binary r = Some b \<and> Benchmark_File r = Some f))"
proof (intro conjI ballI allI impI)
  fix r assume "r \<in> set (rows out)"
  then obtain b f where k: "(b, f) \<in> set (group_keys (input_rows dfs))"
    and r: "r = \<lparr>Binary = Some b, Benchmark_File = Some f,
            Runtime_s = arithmetic_mean (runtime_values (matching_rows b f (input_rows dfs)))\<rparr>"
    unfolding rows_out [OF assms] by auto
  show "\<exists>b f. Binary r = Some b \<and> Benchmark_File r = Some f \<and>
            matching_rows b f (input_rows dfs) \<noteq> [] \<and>
            Runtime_s r = arithmetic_mean (runtime_values (matching_rows b f (input_rows dfs)))"
    using k r matching_rows_nonempty by auto
next
  fix b f assume "matching_rows b f (input_rows dfs) \<noteq> []"
  then have "(b, f) \<in> set (group_keys (input_rows dfs))"
    by (simp add: matching_rows_nonempty)
  then show "\<exists>r \<in> set (rows out). Binary r = Some b \<and> Benchmark_File r = Some f"
    unfolding rows_out [OF assms] by force
qed

text \<open>
  The example of the specification: the runs of 1.0 and 3.0 seconds of \<^verbatim>\<open>bin1\<close> on
  \<^verbatim>\<open>b1.lox\<close> are the two matching rows, and the table shows their mean 2.0 (these three
  numbers are floats, and their sum and quotient are computed without rounding).
\<close>

lemma exact_mean_example:
  "read_all example_fs [''a.csv'', ''b.csv''] = Inr [file_a, file_b]
   \<and> process_benchmark_data example_fs [''a.csv'', ''b.csv''] = Inr out_ab
   \<and> runtime_values (matching_rows ''bin1'' ''b1.lox'' (input_rows [file_a, file_b])) = [1, 3]
   \<and> (\<exists>r \<in> set (rows out_ab).
         Binary r = Some ''bin1'' \<and> Benchmark_File r = Some ''b1.lox'' \<and>
         Runtime_s r = arithmetic_mean [1, 3] \<and> Runtime_s r = Some 2)"
proof -
  let ?rs = "input_rows [file_a, file_b]"
  have v: "runtime_values (matching_rows ''bin1'' ''b1.lox'' ?rs) = [1, 3]"
    by (simp add: runtime_values_def matching_rows_def input_rows_def cells_def reindex_def
          file_a_def file_b_def)
  then have "matching_rows ''bin1'' ''b1.lox'' ?rs \<noteq> []"
    by (auto simp: runtime_values_def)
  with exact_mean_of_matching_rows [OF read_ab process_ab]
  obtain r where r: "r \<in> set (rows out_ab)"
    "Binary r = Some ''bin1''" "Benchmark_File r = Some ''b1.lox''"
    by blast
  with exact_mean_of_matching_rows [OF read_ab process_ab]
  have "Runtime_s r = arithmetic_mean (runtime_values (matching_rows ''bin1'' ''b1.lox'' ?rs))"
    by fastforce
  then have "Runtime_s r = arithmetic_mean [1, 3] \<and> Runtime_s r = Some 2"
    by (simp add: v arithmetic_mean_def)
  with r read_ab process_ab v show ?thesis by blast
qed


subsection \<open>Groups of a single row\<close>

text \<open>
  Claim C3. When exactly one input row has a given pair, the aggregated table has a row
  for that pair, and the runtime of every row of that pair is the runtime cell of that
  single input row, unchanged.
\<close>

theorem single_row_group:
  assumes "read_all fs file_paths = Inr dfs"
      and "process_benchmark_data fs file_paths = Inr out"
      and "matching_rows b f (input_rows dfs) = [x]"
  shows "(\<exists>r \<in> set (rows out). Binary r = Some b \<and> Benchmark_File r = Some f)
       \<and> (\<forall>r \<in> set (rows out). Binary r = Some b \<and> Benchmark_File r = Some f \<longrightarrow>
            Runtime_s r = Runtime_s x)"
proof -
  have m: "arithmetic_mean (runtime_values [x]) = Runtime_s x"
    by (simp add: arithmetic_mean_def runtime_values_Cons runtime_values_Nil
          split: option.splits)
  have k: "(b, f) \<in> set (group_keys (input_rows dfs))"
    using assms(3) matching_rows_nonempty [of b f "input_rows dfs"] by simp
  have "\<exists>r \<in> set (rows out). Binary r = Some b \<and> Benchmark_File r = Some f"
    unfolding rows_out [OF assms(1,2)] using k by force
  moreover have "\<forall>r \<in> set (rows out). Binary r = Some b \<and> Benchmark_File r = Some f \<longrightarrow>
            Runtime_s r = Runtime_s x"
    unfolding rows_out [OF assms(1,2)] using m assms(3) by auto
  ultimately show ?thesis by blast
qed

text \<open>Only one run of \<^verbatim>\<open>bin1\<close> on \<^verbatim>\<open>b2.lox\<close> is in the example files; it took 5 seconds.\<close>

theorem single_row_group_witness:
  "matching_rows ''bin1'' ''b2.lox'' (input_rows [file_a, file_b]) =
     [\<lparr>Binary = Some ''bin1'', Benchmark_File = Some ''b2.lox'', Runtime_s = Some 5\<rparr>]
   \<and> (\<exists>r \<in> set (rows out_ab).
         Binary r = Some ''bin1'' \<and> Benchmark_File r = Some ''b2.lox'' \<and> Runtime_s r = Some 5)"
proof -
  have x: "matching_rows ''bin1'' ''b2.lox'' (input_rows [file_a, file_b]) =
     [\<lparr>Binary = Some ''bin1'', Benchmark_File = Some ''b2.lox'', Runtime_s = Some 5\<rparr>]"
    by (simp add: matching_rows_def input_rows_def cells_def reindex_def file_a_def file_b_def)
  from single_row_group [OF read_ab process_ab x] x show ?thesis
    by fastforce
qed

subsection \<open>Unique keys\<close>

text \<open>
  Claim C5. The table that the aggregation returns has unique keys: no two of its rows
  have the same (Binary, Benchmark File) pair.
\<close>

theorem unique_keys:
  assumes "process_benchmark_data fs file_paths = Inr out"
  shows "distinct (map (\<lambda>r. (Binary r, Benchmark_File r)) (rows out))"
proof -
  obtain dfs where d: "read_all fs file_paths = Inr dfs"
    using assms by (auto simp: process_benchmark_data_def split: sum.splits)
  have "map (\<lambda>r. (Binary r, Benchmark_File r)) (rows out) =
          map (\<lambda>(b, f). (Some b, Some f)) (group_keys (input_rows dfs))"
    by (simp add: rows_out [OF d assms] o_def split_def)
  moreover have "inj_on (\<lambda>(b :: string, f :: string). (Some b, Some f)) A" for A
    by (auto simp: inj_on_def)
  ultimately show ?thesis
    using distinct_group_keys [of "input_rows dfs"]
    by (simp add: distinct_map)
qed

theorem unique_keys_witness:
  "process_benchmark_data example_fs [''a.csv'', ''b.csv''] = Inr out_ab
   \<and> length (rows out_ab) = 4
   \<and> distinct (map (\<lambda>r. (Binary r, Benchmark_File r)) (rows out_ab))"
  using process_ab unique_keys [OF process_ab] by (simp add: out_ab_def)

subsection \<open>Row order\<close>

text \<open>
  Claim C10. Every row of the returned table has a key, and the keys of the rows, in row
  order, are in strictly ascending lexicographic order, first by Binary and then by
  Benchmark File. The list of keys is the sorted list of the set of keys of the input rows,
  so it depends on that set alone and not on the order of the rows or of the files.
\<close>

theorem sorted_output:
  assumes "read_all fs file_paths = Inr dfs"
      and "process_benchmark_data fs file_paths = Inr out"
  shows "length (output_keys out) = length (rows out) \<and>
         sorted (output_keys out) \<and> distinct (output_keys out) \<and>
         output_keys out = sorted_list_of_set (set (List.map_filter row_key (input_rows dfs)))"
  using output_keys_out [OF assms]
  by (simp add: sorted_group_keys distinct_group_keys group_keys_sorted_list_of_set [symmetric])

text \<open>
  In the example the rows of \<^verbatim>\<open>bin1\<close> are read first, and \<^verbatim>\<open>b2.lox\<close> comes before
  \<^verbatim>\<open>b1.lox\<close> in the second file; the table has \<^verbatim>\<open>bin0\<close> first and \<^verbatim>\<open>b1.lox\<close> before
  \<^verbatim>\<open>b2.lox\<close>.
\<close>

theorem sorted_output_witness:
  "output_keys out_ab =
     [(''bin0'', ''b1.lox''), (''bin0'', ''b2.lox''), (''bin1'', ''b1.lox''), (''bin1'', ''b2.lox'')]
   \<and> sorted (output_keys out_ab)
   \<and> output_keys out_ab =
       sorted_list_of_set (set (List.map_filter row_key (input_rows [file_a, file_b])))"
proof -
  have "output_keys out_ab =
     [(''bin0'', ''b1.lox''), (''bin0'', ''b2.lox''), (''bin1'', ''b1.lox''), (''bin1'', ''b2.lox'')]"
    by (simp add: output_keys_def out_ab_def row_key_def)
  with sorted_output [OF read_ab process_ab] show ?thesis by simp
qed

subsection \<open>Files with disjoint keys\<close>

text \<open>
  Claim C4. When two files have no key in common, the number of rows of their aggregated
  table is the number of distinct keys of the first file plus the number of distinct keys
  of the second file.
\<close>

theorem disjoint_files_row_count:
  assumes "read_all fs [p1, p2] = Inr [d1, d2]"
      and "process_benchmark_data fs [p1, p2] = Inr out"
      and "frame_keys d1 \<inter> frame_keys d2 = {}"
  shows "length (rows out) = card (frame_keys d1) + card (frame_keys d2)"
proof -
  have "length (rows out) = card (set (group_keys (input_rows [d1, d2])))"
    using output_keys_out(2) [OF assms(1,2)] distinct_group_keys [of "input_rows [d1, d2]"]
    by (simp add: distinct_card)
  also have "set (group_keys (input_rows [d1, d2])) = frame_keys d1 \<union> frame_keys d2"
    by (simp add: group_keys_def set_input_rows_keys)
  also have "card (frame_keys d1 \<union> frame_keys d2) = card (frame_keys d1) + card (frame_keys d2)"
    using assms(3) by (simp add: card_Un_disjoint frame_keys_def)
  finally show ?thesis .
qed

lemma frame_keys_a: "frame_keys file_a = {(''bin1'', ''b1.lox''), (''bin1'', ''b2.lox'')}"
  by (auto simp: frame_keys_def cells_def reindex_def row_key_def file_a_def)

lemma frame_keys_b: "frame_keys file_b = {(''bin0'', ''b2.lox''), (''bin0'', ''b1.lox'')}"
  by (auto simp: frame_keys_def cells_def reindex_def row_key_def file_b_def)

theorem disjoint_files_row_count_witness:
  "frame_keys file_a \<inter> frame_keys file_b = {}
   \<and> card (frame_keys file_a) = 2 \<and> card (frame_keys file_b) = 2
   \<and> length (rows out_ab) = card (frame_keys file_a) + card (frame_keys file_b)"
proof -
  have d: "frame_keys file_a \<inter> frame_keys file_b = {}"
    by (simp add: frame_keys_a frame_keys_b)
  have "card (frame_keys file_a) = 2" "card (frame_keys file_b) = 2"
    by (simp_all add: frame_keys_a frame_keys_b)
  with d disjoint_files_row_count [OF read_ab process_ab d] show ?thesis by simp
qed


subsection \<open>Missing columns\<close>

lemma set_union_columns: "set (union_columns dfs) = (\<Union>df \<in> set dfs. set (columns df))"
  by (simp add: union_columns_def)

lemma groupby_mean_missing:
  assumes "c \<in> {''Binary'', ''Benchmark File'', ''Runtime (s)''}"
      and "c \<notin> set (columns df)"
  shows "\<exists>e. groupby_mean df = Inl e"
  using assms by (auto simp: groupby_mean_def)

lemmas chart_defs =
  create_bar_chart_def column_Benchmark_File_def column_Binary_def column_Runtime_s_def
  unique_def bar_call_def broadcast_bars_def save_or_show_def
  setup_calls_def axis_labels_def ticks_and_legend_def
  path_name_def path_stem_def path_parts_def Let_def

lemma chart_out_ac: "create_bar_chart savefig out_ac None = (chart_ac, None)"
  by (simp add: chart_defs out_ac_def chart_ac_def)

text \<open>
  Claim C2 says that a single input file without a required column makes the run fail.
  It does not when another input file has the column: \<^verbatim>\<open>pd.concat\<close> joins the files on
  the union of their columns and fills the cells of the missing column with NaN. Here
  \<^verbatim>\<open>c.csv\<close> has no runtime column; the run returns a table in which the pairs of
  \<^verbatim>\<open>c.csv\<close> have the mean NaN, and the chart is drawn.
\<close>

theorem missing_column_counterexample:
  "example_fs ''c.csv'' = Some file_c
   \<and> ''Runtime (s)'' \<notin> set (columns file_c)
   \<and> process_benchmark_data example_fs [''a.csv'', ''c.csv''] = Inr out_ac
   \<and> main savefig_ok example_fs [''a.csv'', ''c.csv''] None = (chart_ac, None)
   \<and> Show \<in> set chart_ac"
proof -
  have "main savefig_ok example_fs [''a.csv'', ''c.csv''] None = (chart_ac, None)"
    by (simp add: main_def process_ac chart_out_ac)
  moreover have "example_fs ''c.csv'' = Some file_c"
    by (simp add: example_fs_def)
  moreover have "''Runtime (s)'' \<notin> set (columns file_c)"
    by (simp add: file_c_def)
  moreover have "Show \<in> set chart_ac"
    by (simp add: chart_ac_def)
  ultimately show ?thesis using process_ac by blast
qed

text \<open>
  Claim C2, amended. When all input files can be read and a required column (Binary,
  Benchmark File or Runtime (s)) is missing from every one of them, in particular from
  the only input file, the aggregation fails with an error instead of a table, and
  \<^verbatim>\<open>main\<close> ends with an error before any call into the plotting library is made.
\<close>

theorem missing_column_in_every_file:
  assumes "read_all fs file_paths = Inr dfs"
      and "c \<in> {''Binary'', ''Benchmark File'', ''Runtime (s)''}"
      and "\<forall>df \<in> set dfs. c \<notin> set (columns df)"
  shows "(\<exists>e. process_benchmark_data fs file_paths = Inl e)
       \<and> (\<exists>e. main savefig fs file_paths output_path = ([], Some e))"
proof -
  have p: "\<exists>e. process_benchmark_data fs file_paths = Inl e"
  proof (cases "dfs = []")
    case True
    then show ?thesis
      using assms(1) by (simp add: process_benchmark_data_def concat_frames_def)
  next
    case False
    have "c \<notin> set (columns \<lparr>columns = union_columns dfs, rows = input_rows dfs\<rparr>)"
      using assms(3) by (simp add: set_union_columns)
    from groupby_mean_missing [OF assms(2) this] False show ?thesis
      using assms(1) by (simp add: process_benchmark_data_def concat_frames_def)
  qed
  then show ?thesis
    by (auto simp: main_def)
qed

text \<open>With \<^verbatim>\<open>c.csv\<close> as the only input the run fails with the KeyError of the selection.\<close>

theorem missing_column_in_every_file_witness:
  "read_all example_fs [''c.csv''] = Inr [file_c]
   \<and> ''Runtime (s)'' \<notin> set (columns file_c)
   \<and> process_benchmark_data example_fs [''c.csv''] =
       Inl (KeyError ''Column not found: Runtime (s)'')
   \<and> (\<exists>e. main savefig_ok example_fs [''c.csv''] (Some ''chart.png'') = ([], Some e))"
proof -
  have c: "''Runtime (s)'' \<in> {''Binary'', ''Benchmark File'', ''Runtime (s)''}"
    by simp
  have a: "\<forall>df \<in> set [file_c]. ''Runtime (s)'' \<notin> set (columns df)"
    by (simp add: file_c_def)
  have "process_benchmark_data example_fs [''c.csv''] =
       Inl (KeyError ''Column not found: Runtime (s)'')"
    by (simp add: example_defs)
  with missing_column_in_every_file [OF read_c c a, where savefig = savefig_ok
      and output_path = "Some ''chart.png''"] read_c a
  show ?thesis by simp
qed

section \<open>Properties of the chart renderer\<close>

subsection \<open>The shape of a run\<close>

lemma bar_call_Bar:
  assumes "bar_call data benchmarks w i binary = Inr c"
  shows "\<exists>xs heights b. binary = Some b \<and> c = Bar xs heights w (path_name b)"
proof -
  from assms obtain heights where
    h: "column_Runtime_s data (filter (\<lambda>r. binary \<noteq> None \<and> Binary r = binary) (rows data)) = Inr heights"
    by (cases "column_Runtime_s data (filter (\<lambda>r. binary \<noteq> None \<and> Binary r = binary) (rows data))")
       (simp_all add: bar_call_def Let_def)
  from assms h obtain b where b: "binary = Some b"
    by (cases binary) (simp_all add: bar_call_def Let_def)
  let ?xs = "map (\<lambda>p. real p + real i * w) [0..<length benchmarks]"
  from assms h b have "c = Bar ?xs heights w (path_name b)"
    by (cases "broadcast_bars ?xs heights") (simp_all add: bar_call_def Let_def)
  with b show ?thesis by blast
qed

lemma bar_loop_width:
  assumes "bar_loop data benchmarks w i binaries = (cs, e)"
  shows "\<forall>c \<in> set cs. bar_width_of c = Some w"
  using assms
proof (induction binaries arbitrary: i cs e)
  case Nil
  then show ?case by simp
next
  case (Cons binary binaries)
  show ?case
  proof (cases "bar_call data benchmarks w i binary")
    case (Inl err)
    with Cons.prems show ?thesis by simp
  next
    case (Inr c)
    obtain cs' e' where l: "bar_loop data benchmarks w (Suc i) binaries = (cs', e')"
      by (cases "bar_loop data benchmarks w (Suc i) binaries") auto
    from Cons.prems Inr l have cs: "cs = c # cs'" by simp
    from bar_call_Bar [OF Inr] have "bar_width_of c = Some w" by auto
    with Cons.IH [OF l] cs show ?thesis by simp
  qed
qed

lemma bar_is_bar:
  assumes "bar_width_of c = Some w"
  shows "tick_labels c = [] \<and> savefig_paths c = [] \<and> printed_lines c = [] \<and> c \<noteq> Show \<and>
         bar_label c \<noteq> None"
  using assms by (cases c) simp_all

lemma bar_loop_labels:
  assumes "bar_loop data benchmarks w i binaries = (cs, None)"
  shows "\<exists>bs. binaries = map Some bs \<and> List.map_filter bar_label cs = map path_name bs"
  using assms
proof (induction binaries arbitrary: i cs)
  case Nil
  then show ?case by simp
next
  case (Cons binary binaries)
  show ?case
  proof (cases "bar_call data benchmarks w i binary")
    case (Inl err)
    with Cons.prems show ?thesis by simp
  next
    case (Inr c)
    obtain cs' e' where l: "bar_loop data benchmarks w (Suc i) binaries = (cs', e')"
      by (cases "bar_loop data benchmarks w (Suc i) binaries") auto
    from Cons.prems Inr l have cs: "cs = c # cs'" and e': "e' = None" by simp_all
    from bar_call_Bar [OF Inr] obtain xs heights b
      where b: "binary = Some b" and c: "c = Bar xs heights w (path_name b)" by blast
    from Cons.IH [OF l [unfolded e']] obtain bs where
      bs: "binaries = map Some bs" and ls: "List.map_filter bar_label cs' = map path_name bs"
      by blast
    have 1: "binary # binaries = map Some (b # bs)" using b bs by simp
    have 2: "List.map_filter bar_label cs = map path_name (b # bs)"
      unfolding cs c using ls by simp
    from 1 2 show ?thesis by (intro exI conjI)
  qed
qed

lemma stems_Inr:
  "stems bs = Inr ls \<Longrightarrow> \<exists>names. bs = map Some names \<and> ls = map path_stem names"
proof (induction bs arbitrary: ls)
  case Nil
  then show ?case by simp
next
  case (Cons b bs)
  show ?case
  proof (cases b)
    case None
    with Cons.prems show ?thesis by simp
  next
    case (Some name)
    with Cons.prems obtain ls' where ls': "stems bs = Inr ls'" "ls = path_stem name # ls'"
      by (auto split: sum.splits)
    from Cons.IH [OF ls'(1)] obtain names where "bs = map Some names" "ls' = map path_stem names"
      by auto
    with Some ls' have "b # bs = map Some (name # names) \<and> ls = map path_stem (name # names)"
      by simp
    then show ?thesis by (rule exI)
  qed
qed

lemma length_unique: "length (unique xs) = card (set xs)"
proof -
  have "distinct (unique xs)" "set (unique xs) = set xs"
    by (simp_all add: unique_def)
  then show ?thesis using distinct_card by metis
qed

lemma create_bar_chart_unfold:
  assumes "''Benchmark File'' \<in> set (columns data)" and "''Binary'' \<in> set (columns data)"
      and "unique (map Binary (rows data)) \<noteq> []"
  shows "create_bar_chart savefig data output_path =
     (case bar_loop data (unique (map Benchmark_File (rows data)))
                   (0.8 / real (length (unique (map Binary (rows data))))) 0
                   (unique (map Binary (rows data))) of
              (bars, Some e) \<Rightarrow> (setup_calls @ bars, Some e)
            | (bars, None) \<Rightarrow>
                (case stems (unique (map Benchmark_File (rows data))) of
                   Inl e \<Rightarrow> (setup_calls @ bars @ axis_labels, Some e)
                 | Inr tick_names \<Rightarrow>
                     (case save_or_show savefig output_path of
                        (closing, e) \<Rightarrow>
                          (setup_calls @ bars @ axis_labels @
                           ticks_and_legend (length (unique (map Benchmark_File (rows data))))
                             tick_names @
                           closing, e))))"
  unfolding create_bar_chart_def column_Benchmark_File_def column_Binary_def Let_def
  using assms by simp

lemma create_bar_chart_early:
  assumes "\<not> (''Benchmark File'' \<in> set (columns data) \<and> ''Binary'' \<in> set (columns data)
      \<and> unique (map Binary (rows data)) \<noteq> [])"
  shows "\<exists>e. create_bar_chart savefig data output_path = (setup_calls, Some e)"
  unfolding create_bar_chart_def column_Benchmark_File_def column_Binary_def Let_def
  using assms by auto

text \<open>
  A run either raises before the chart is complete, and then consists of the set-up calls,
  the bars drawn so far and possibly the axis labels; or it draws the whole chart and ends
  with the calls of the save-or-show branch and with the outcome of that branch.
\<close>

lemma create_bar_chart_cases:
  assumes "create_bar_chart savefig data output_path = (calls, err)"
  obtains (raised) bars where "err \<noteq> None"
      "calls = setup_calls @ bars \<or> calls = setup_calls @ bars @ axis_labels"
      "\<forall>c \<in> set bars. bar_width_of c = Some (0.8 / real (length (unique (map Binary (rows data)))))"
    | (rendered) bars tick_names closing where
      "unique (map Binary (rows data)) \<noteq> []"
      "bar_loop data (unique (map Benchmark_File (rows data)))
          (0.8 / real (length (unique (map Binary (rows data))))) 0
          (unique (map Binary (rows data))) = (bars, None)"
      "stems (unique (map Benchmark_File (rows data))) = Inr tick_names"
      "save_or_show savefig output_path = (closing, err)"
      "calls = setup_calls @ bars @ axis_labels @
          ticks_and_legend (length (unique (map Benchmark_File (rows data)))) tick_names @
          closing"
proof -
  let ?w = "0.8 / real (length (unique (map Binary (rows data))))"
  let ?bs = "unique (map Benchmark_File (rows data))"
  show ?thesis
  proof (cases "''Benchmark File'' \<in> set (columns data) \<and> ''Binary'' \<in> set (columns data)
                  \<and> unique (map Binary (rows data)) \<noteq> []")
    case False
    from create_bar_chart_early [OF False, of savefig output_path] assms
    have "err \<noteq> None" and "calls = setup_calls @ []" by auto
    then show ?thesis using raised [of "[]"] by simp
  next
    case True
    note u = create_bar_chart_unfold [of data savefig output_path]
    obtain bars e where l: "bar_loop data ?bs ?w 0 (unique (map Binary (rows data))) = (bars, e)"
      by (cases "bar_loop data ?bs ?w 0 (unique (map Binary (rows data)))") auto
    note w = bar_loop_width [OF l]
    show ?thesis
    proof (cases e)
      case (Some x)
      with assms True l have "err \<noteq> None" and "calls = setup_calls @ bars"
        by (auto simp: u)
      then show ?thesis using raised [of bars] w by simp
    next
      case None
      show ?thesis
      proof (cases "stems ?bs")
        case (Inl x)
        with assms True l None have "err \<noteq> None" and "calls = setup_calls @ bars @ axis_labels"
          by (auto simp: u)
        then show ?thesis using raised [of bars] w by simp
      next
        case (Inr tick_names)
        obtain closing e' where c: "save_or_show savefig output_path = (closing, e')"
          by (cases "save_or_show savefig output_path") auto
        with Inr assms True l None have "e' = err" and "calls = setup_calls @ bars @ axis_labels @
            ticks_and_legend (length ?bs) tick_names @ closing"
          by (auto simp: u)
        then show ?thesis using rendered [of bars tick_names closing] l None Inr True c by simp
      qed
    qed
  qed
qed


lemma map_filter_append:
  "List.map_filter g (xs @ ys) = List.map_filter g xs @ List.map_filter g ys"
  by (simp add: List.map_filter_def)

lemma fixed_calls_no_bar:
  "\<forall>c \<in> set setup_calls. bar_width_of c = None \<and> bar_label c = None"
  "\<forall>c \<in> set axis_labels. bar_width_of c = None \<and> bar_label c = None"
  "\<forall>c \<in> set (ticks_and_legend n names). bar_width_of c = None \<and> bar_label c = None"
  "\<forall>c \<in> set (fst (save_or_show savefig output_path)).
      bar_width_of c = None \<and> bar_label c = None"
  by (simp_all add: setup_calls_def axis_labels_def ticks_and_legend_def save_or_show_def
        split: option.splits)


lemma fixed_calls_ticks:
  "concat (map tick_labels setup_calls) = []"
  "concat (map tick_labels axis_labels) = []"
  "concat (map tick_labels (ticks_and_legend n names)) = zip [0..<n] names"
  "concat (map tick_labels (fst (save_or_show savefig output_path))) = []"
  by (simp_all add: setup_calls_def axis_labels_def ticks_and_legend_def save_or_show_def
        split: option.splits)

lemma bars_plain:
  assumes "\<forall>c \<in> set bars. bar_width_of c = Some w"
  shows "concat (map savefig_paths bars) = []" and "concat (map tick_labels bars) = []"
    and "Show \<notin> set bars" and "concat (map printed_lines bars) = []"
  using assms bar_is_bar by (induction bars) auto

lemma map_filter_None:
  assumes "\<forall>c \<in> set cs. g c = None"
  shows "List.map_filter g cs = []"
  using assms by (induction cs) auto

subsection \<open>Bar width\<close>

text \<open>
  Claim C6. Whatever table and output path the renderer is called with, every bar that it
  draws has the width 0.8 divided by the number of distinct binaries of the table; that
  number is not zero when a bar is drawn.
\<close>

theorem bar_width:
  assumes "create_bar_chart savefig data output_path = (calls, err)"
      and "c \<in> set calls"
      and "bar_width_of c = Some width"
  shows "0 < distinct_binaries data \<and> width = 0.8 / real (distinct_binaries data)"
proof -
  let ?w = "0.8 / real (length (unique (map Binary (rows data))))"
  have n: "distinct_binaries data = length (unique (map Binary (rows data)))"
    by (simp add: distinct_binaries_def length_unique)
  have "\<exists>bars. c \<in> set bars \<and> (\<forall>c \<in> set bars. bar_width_of c = Some ?w)"
    using assms(1)
  proof (cases rule: create_bar_chart_cases)
    case (raised bars)
    with assms(2,3) fixed_calls_no_bar(1,2) have "c \<in> set bars" by auto
    with raised(3) show ?thesis by blast
  next
    case (rendered bars tick_names closing)
    from rendered(4) have "closing = fst (save_or_show savefig output_path)" by simp
    with rendered(5) assms(2,3) fixed_calls_no_bar
    have "c \<in> set bars" by auto
    with bar_loop_width [OF rendered(2)] show ?thesis by blast
  qed
  then obtain bars where b: "c \<in> set bars" "\<forall>c \<in> set bars. bar_width_of c = Some ?w"
    by blast
  then have w: "width = ?w" using assms(3) by auto
  have "unique (map Binary (rows data)) \<noteq> []"
  proof
    assume "unique (map Binary (rows data)) = []"
    then have "\<not> (''Benchmark File'' \<in> set (columns data) \<and> ''Binary'' \<in> set (columns data)
      \<and> unique (map Binary (rows data)) \<noteq> [])" by simp
    from create_bar_chart_early [OF this, of savefig output_path] assms(1)
    have "calls = setup_calls" by auto
    with assms(2,3) fixed_calls_no_bar(1) show False by auto
  qed
  with w n show ?thesis by simp
qed

lemma chart_out_lox:
  "create_bar_chart savefig out_lox None = (chart_lox @ [Show], None)"
  by (simp add: chart_defs out_lox_def chart_lox_def)


lemma distinct_binaries_lox: "distinct_binaries out_lox = 2"
  by (simp add: distinct_binaries_def out_lox_def)

text \<open>Two binaries: both calls of \<^verbatim>\<open>plt.bar\<close> pass the width 0.4.\<close>

theorem bar_width_witness:
  "create_bar_chart savefig_ok out_lox None = (chart_lox @ [Show], None)
   \<and> Bar [0, 1] [Some (3 / 2), Some 2] (2 / 5) ''clox'' \<in> set (chart_lox @ [Show])
   \<and> distinct_binaries out_lox = 2
   \<and> (2 / 5 :: real) = 0.8 / real (distinct_binaries out_lox)"
proof -
  have m: "Bar [0, 1] [Some (3 / 2), Some 2] (2 / 5) ''clox'' \<in> set (chart_lox @ [Show])"
    by (simp add: chart_lox_def)
  have b: "bar_width_of (Bar [0, 1] [Some (3 / 2), Some 2] (2 / 5) ''clox'') = Some (2 / 5)"
    by simp
  from bar_width [OF chart_out_lox m b] chart_out_lox m distinct_binaries_lox
  show ?thesis by simp
qed


subsection \<open>Saving or showing the chart\<close>








subsection \<open>File names and extensions\<close>

lemma split_sep_nonempty: "split_sep sep xs \<noteq> []"
  by (induction xs) (auto split: list.splits)

lemma split_sep_no_sep: "sep \<notin> set xs \<Longrightarrow> split_sep sep xs = [xs]"
  by (induction xs) auto

lemma split_sep_append:
  "split_sep sep (xs @ sep # ys) = split_sep sep xs @ split_sep sep ys"
proof (induction xs)
  case Nil
  then show ?case by simp
next
  case (Cons x xs)
  then show ?case
    using split_sep_nonempty [of sep xs]
    by (cases "split_sep sep xs") auto
qed

text \<open>
  The name of a path is what follows its last slash, when that is a proper file name;
  a path without slash is its own name.
\<close>

lemma path_name_basename:
  assumes "CHR ''/'' \<notin> set name" and "name \<noteq> []" and "name \<noteq> ''.''"
  shows "path_name (dir @ ''/'' @ name) = name" and "path_name name = name"
  using assms
  by (simp_all add: path_name_def path_parts_def split_sep_append split_sep_no_sep)

lemma rfind_absent: "c \<notin> set xs \<Longrightarrow> rfind c xs = -1"
  by (induction xs) (auto simp: Let_def)

lemma rfind_last: "c \<notin> set ext \<Longrightarrow> rfind c (base @ c # ext) = int (length base)"
  by (induction base) (auto simp: Let_def rfind_absent)

text \<open>
  The stem of a path is its name without the extension, the part from the last dot on;
  a name without dot is its own stem.
\<close>

lemma path_stem_extension:
  assumes "path_name p = base @ ''.'' @ ext"
      and "base \<noteq> []" and "ext \<noteq> []" and "CHR ''.'' \<notin> set ext"
  shows "path_stem p = base"
  using assms rfind_last [of "CHR ''.''" ext base]
  by (cases ext) (auto simp: path_stem_def Let_def)

lemma path_stem_no_extension:
  assumes "CHR ''.'' \<notin> set (path_name p)"
  shows "path_stem p = path_name p"
  using rfind_absent [OF assms] by (simp add: path_stem_def Let_def)


subsection \<open>Tick labels and legend entries\<close>

lemma bars_labels_only:
  assumes "\<forall>c \<in> set bars. bar_width_of c = Some w"
  shows "concat (map tick_labels (setup_calls @ bars @ axis_labels)) = []"
  using bars_plain(2) [OF assms] fixed_calls_ticks(1,2) by simp

lemma legend_entries:
  "List.map_filter bar_label
     (setup_calls @ bars @ axis_labels @ ticks_and_legend n names @
      fst (save_or_show savefig output_path)) =
   List.map_filter bar_label bars"
  using fixed_calls_no_bar
  by (simp add: map_filter_append map_filter_None)

text \<open>
  Claim C9. When the renderer finishes, the distinct benchmarks and the distinct binaries
  of the table are all present (not NaN); the tick at position \<open>i\<close> of the x-axis is
  labelled with \<^verbatim>\<open>Path(b).stem\<close> of the \<open>i\<close>-th distinct benchmark \<open>b\<close>, its file name
  without the extension; and the legend entries are, in order, \<^verbatim>\<open>Path(b).name\<close> of the
  distinct binaries \<open>b\<close>, their file names without the directories.
\<close>

theorem chart_labels:
  assumes "create_bar_chart savefig data output_path = (calls, None)"
  shows "\<exists>benchmarks binaries.
           unique (map Benchmark_File (rows data)) = map Some benchmarks \<and>
           unique (map Binary (rows data)) = map Some binaries \<and>
           concat (map tick_labels calls) =
             zip [0..<length benchmarks] (map path_stem benchmarks) \<and>
           List.map_filter bar_label calls = map path_name binaries"
  using assms
proof (cases rule: create_bar_chart_cases)
  case (raised bars)
  then show ?thesis by simp
next
  case (rendered bars tick_names closing)
  let ?n = "length (unique (map Benchmark_File (rows data)))"
  note w = bar_loop_width [OF rendered(2)]
  have closing: "closing = fst (save_or_show savefig output_path)"
    using rendered(4) by simp
  from stems_Inr [OF rendered(3)] obtain benchmarks where
    bs: "unique (map Benchmark_File (rows data)) = map Some benchmarks"
      "tick_names = map path_stem benchmarks"
    by blast
  from bar_loop_labels [OF rendered(2)] obtain binaries where
    bins: "unique (map Binary (rows data)) = map Some binaries"
      "List.map_filter bar_label bars = map path_name binaries"
    by blast
  have n: "?n = length benchmarks" using bs(1) by simp
  have "concat (map tick_labels calls) =
      concat (map tick_labels (setup_calls @ bars @ axis_labels)) @
      concat (map tick_labels (ticks_and_legend ?n tick_names)) @
      concat (map tick_labels (fst (save_or_show savefig output_path)))"
    unfolding rendered(5) closing by simp
  then have t: "concat (map tick_labels calls) =
      zip [0..<length benchmarks] (map path_stem benchmarks)"
    using bars_labels_only [OF w] fixed_calls_ticks(3,4) bs(2) n by simp
  have l: "List.map_filter bar_label calls = map path_name binaries"
    unfolding rendered(5) closing legend_entries using bins(2) by simp
  from bs(1) bins(1) t l show ?thesis by blast
qed

lemma path_examples:
  "path_stem ''benchmarks/fib.lox'' = ''fib''"
  "path_stem ''benchmarks/loop.lox'' = ''loop''"
  "path_name ''build/clox'' = ''clox''"
  "path_name ''build/jlox'' = ''jlox''"
  by (simp_all add: path_stem_def path_name_def path_parts_def Let_def)

lemma unique_lox:
  "unique (map Benchmark_File (rows out_lox)) =
     map Some [''benchmarks/fib.lox'', ''benchmarks/loop.lox'']"
  "unique (map Binary (rows out_lox)) = map Some [''build/clox'', ''build/jlox'']"
  by (simp_all add: unique_def out_lox_def)

text \<open>
  The interpreters \<^verbatim>\<open>build/clox\<close> and \<^verbatim>\<open>build/jlox\<close> appear in the legend as \<^verbatim>\<open>clox\<close> and
  \<^verbatim>\<open>jlox\<close>, and the benchmarks \<^verbatim>\<open>benchmarks/fib.lox\<close> and \<^verbatim>\<open>benchmarks/loop.lox\<close> on the
  axis as \<^verbatim>\<open>fib\<close> and \<^verbatim>\<open>loop\<close>.
\<close>

theorem chart_labels_witness:
  "create_bar_chart savefig_ok out_lox None = (chart_lox @ [Show], None)
   \<and> concat (map tick_labels (chart_lox @ [Show])) = [(0, ''fib''), (1, ''loop'')]
   \<and> List.map_filter bar_label (chart_lox @ [Show]) = [''clox'', ''jlox'']"
proof -
  from chart_labels [OF chart_out_lox] obtain benchmarks binaries where
    "unique (map Benchmark_File (rows out_lox)) = map Some benchmarks"
    "unique (map Binary (rows out_lox)) = map Some binaries"
    and t: "concat (map tick_labels (chart_lox @ [Show])) =
             zip [0..<length benchmarks] (map path_stem benchmarks)"
    and l: "List.map_filter bar_label (chart_lox @ [Show]) = map path_name binaries"
    by blast
  with unique_lox have "benchmarks = [''benchmarks/fib.lox'', ''benchmarks/loop.lox'']"
    and "binaries = [''build/clox'', ''build/jlox'']"
    by (simp_all add: map_eq_Cons_conv)
  with t l path_examples chart_out_lox show ?thesis
    by (simp add: upt_rec)
qed


subsection \<open>Tables in which a binary lacks a benchmark\<close>

lemma process_e: "process_benchmark_data fs_e [''e.csv''] = Inr file_e"
  by (simp add: process_benchmark_data_def read_csv_def concat_frames_def union_columns_def
        input_rows_def cells_def reindex_def groupby_mean_def group_keys_def row_key_def
        group_mean_def reset_index_def fs_e_def file_e_def)

lemma chart_file_e: "create_bar_chart savefig file_e None = (chart_e, None)"
  by (simp add: chart_defs file_e_def chart_e_def)

lemma process_f: "process_benchmark_data fs_f [''f.csv''] = Inr file_f"
  by (simp add: process_benchmark_data_def read_csv_def concat_frames_def union_columns_def
        input_rows_def cells_def reindex_def groupby_mean_def group_keys_def row_key_def
        group_mean_def reset_index_def fs_f_def file_f_def)

text \<open>
  With three benchmarks and a binary that was timed on two of them, \<^verbatim>\<open>plt.bar\<close> gets
  three positions and two heights and raises ValueError: the run ends after the bars of
  the first binary.
\<close>

lemma chart_f_raises:
  "main savefig fs_f [''f.csv''] None =
     (setup_calls @ [Bar [0, 1, 2] [Some 1, Some 2, Some 3] (2 / 5) ''bin1''], Some ValueError)"
  by (simp add: main_def process_f) (simp add: chart_defs file_f_def)

text \<open>
  Claim C7 does not hold of the code. The heights of a binary are paired with the tick
  positions by their order, not by their benchmark. In the table of \<^verbatim>\<open>e.csv\<close> the binary
  \<^verbatim>\<open>bin1\<close> has no row for \<^verbatim>\<open>b1.lox\<close>, so the benchmarks are met in the order \<^verbatim>\<open>b2.lox\<close>,
  \<^verbatim>\<open>b1.lox\<close>: tick 0 is labelled \<^verbatim>\<open>b2\<close> and tick 1 is labelled \<^verbatim>\<open>b1\<close>. The bars of \<^verbatim>\<open>bin2\<close>
  are drawn at the offset 0.4; its bar at tick 0 has the height 2, which the table records
  for \<^verbatim>\<open>b1.lox\<close>, while its mean for \<^verbatim>\<open>b2.lox\<close> is 3. The single height of \<^verbatim>\<open>bin1\<close> is
  broadcast to both ticks, so \<^verbatim>\<open>bin1\<close> gets a bar at the tick of \<^verbatim>\<open>b1.lox\<close>, for which the
  table has no row.
\<close>

theorem incomplete_table_chart:
  "process_benchmark_data fs_e [''e.csv''] = Inr file_e
   \<and> main savefig_ok fs_e [''e.csv''] None = (chart_e, None)
   \<and> Xticks [0, 1] [''b2'', ''b1''] 45 \<in> set chart_e
   \<and> Bar [2 / 5, 7 / 5] [Some 2, Some 3] (2 / 5) ''bin2'' \<in> set chart_e
   \<and> bars_of (Bar [2 / 5, 7 / 5] [Some 2, Some 3] (2 / 5) ''bin2'') =
       [(0 + 2 / 5, Some 2), (1 + 2 / 5, Some 3)]
   \<and> table_runtime file_e ''bin2'' ''b2.lox'' = Some (Some 3)
   \<and> table_runtime file_e ''bin2'' ''b1.lox'' = Some (Some 2)
   \<and> Bar [0, 1] [Some 1] (2 / 5) ''bin1'' \<in> set chart_e
   \<and> bars_of (Bar [0, 1] [Some 1] (2 / 5) ''bin1'') = [(0, Some 1), (1, Some 1)]
   \<and> table_runtime file_e ''bin1'' ''b1.lox'' = None"
proof -
  have "main savefig_ok fs_e [''e.csv''] None = (chart_e, None)"
    by (simp add: main_def process_e chart_file_e)
  moreover have "Xticks [0, 1] [''b2'', ''b1''] 45 \<in> set chart_e"
    "Bar [2 / 5, 7 / 5] [Some 2, Some 3] (2 / 5) ''bin2'' \<in> set chart_e"
    "Bar [0, 1] [Some 1] (2 / 5) ''bin1'' \<in> set chart_e"
    by (simp_all add: chart_e_def)
  moreover have "bars_of (Bar [2 / 5, 7 / 5] [Some 2, Some 3] (2 / 5) ''bin2'') =
       [(0 + 2 / 5, Some 2), (1 + 2 / 5, Some 3)]"
    "bars_of (Bar [0, 1] [Some 1] (2 / 5) ''bin1'') = [(0, Some 1), (1, Some 1)]"
    by (simp_all add: broadcast_bars_def)
  moreover have "table_runtime file_e ''bin2'' ''b2.lox'' = Some (Some 3)"
    "table_runtime file_e ''bin2'' ''b1.lox'' = Some (Some 2)"
    "table_runtime file_e ''bin1'' ''b1.lox'' = None"
    by (simp_all add: table_runtime_def file_e_def)
  ultimately show ?thesis using process_e by simp
qed


subsection \<open>Complete tables\<close>

lemma unique_Nil: "unique [] = []"
  by (simp add: unique_def)

lemma remdups_append_filter:
  "remdups (xs @ ys) = remdups (filter (\<lambda>x. x \<notin> set ys) xs) @ remdups ys"
  by (induction xs) auto

lemma unique_append:
  "unique (xs @ ys) = unique xs @ unique (filter (\<lambda>y. y \<notin> set xs) ys)"
  by (simp add: unique_def remdups_append_filter [of "rev ys" "rev xs"] rev_filter)

lemma unique_distinct: "distinct xs \<Longrightarrow> unique xs = xs"
  by (simp add: unique_def distinct_remdups_id)

lemma unique_replicate:
  assumes "0 < n"
  shows "unique (replicate n x) = [x]"
proof -
  obtain m where n: "n = Suc m" using assms by (cases n) auto
  have "remdups (replicate (Suc m) x) = [x]"
    by (induction m) auto
  then show ?thesis
    unfolding unique_def rev_replicate n by (simp only: rev.simps append.simps)
qed

lemma filter_grid_binary:
  assumes "distinct binaries" and "b \<in> set binaries"
  shows "filter (\<lambda>r. Some b \<noteq> None \<and> Binary r = Some b) (grid_rows binaries benchmarks v) =
           map (\<lambda>f. \<lparr>Binary = Some b, Benchmark_File = Some f, Runtime_s = v b f\<rparr>) benchmarks"
  using assms
proof (induction binaries)
  case Nil
  then show ?case by simp
next
  case (Cons a binaries)
  have other: "filter (\<lambda>r. Binary r = Some b)
      (map (\<lambda>f. \<lparr>Binary = Some c, Benchmark_File = Some f, Runtime_s = v c f\<rparr>) benchmarks) = []"
    if "c \<noteq> b" for c
    using that by (induction benchmarks) auto
  have same: "filter (\<lambda>r. Binary r = Some b)
      (map (\<lambda>f. \<lparr>Binary = Some b, Benchmark_File = Some f, Runtime_s = v b f\<rparr>) benchmarks) =
      map (\<lambda>f. \<lparr>Binary = Some b, Benchmark_File = Some f, Runtime_s = v b f\<rparr>) benchmarks"
    by (induction benchmarks) auto
  have rest: "filter (\<lambda>r. Binary r = Some b) (grid_rows binaries benchmarks v) = []"
    if "b \<notin> set binaries"
    using that other by (induction binaries) (auto simp: grid_rows_def)
  show ?case
  proof (cases "a = b")
    case True
    with Cons.prems have "b \<notin> set binaries" by simp
    with rest True same show ?thesis by (simp add: grid_rows_def)
  next
    case False
    with Cons.prems have "b \<in> set binaries" "distinct binaries" by simp_all
    with Cons.IH other [OF False] show ?thesis by (simp add: grid_rows_def)
  qed
qed

lemma unique_grid_binaries:
  assumes "distinct binaries" and "benchmarks \<noteq> []"
  shows "unique (map Binary (grid_rows binaries benchmarks v)) = map Some binaries"
  using assms(1)
proof (induction binaries)
  case Nil
  then show ?case by (simp add: grid_rows_def unique_Nil)
next
  case (Cons b binaries)
  let ?own = "map Binary (map (\<lambda>f. \<lparr>Binary = Some b, Benchmark_File = Some f,
                  Runtime_s = v b f\<rparr>) benchmarks)"
  have own: "?own = replicate (length benchmarks) (Some b)"
    by (simp add: map_replicate_const o_def)
  with assms(2) have u: "unique ?own = [Some b]" and s: "set ?own = {Some b}"
    by (simp_all add: unique_replicate del: map_map)
  have "\<forall>r \<in> set (grid_rows binaries benchmarks v). Binary r \<noteq> Some b"
    using Cons.prems by (auto simp: grid_rows_def)
  then have f: "filter (\<lambda>y. y \<notin> set ?own) (map Binary (grid_rows binaries benchmarks v)) =
      map Binary (grid_rows binaries benchmarks v)"
    unfolding s by (simp add: filter_id_conv)
  have "map Binary (grid_rows (b # binaries) benchmarks v) =
      ?own @ map Binary (grid_rows binaries benchmarks v)"
    by (simp add: grid_rows_def)
  then show ?case
    using Cons u f by (simp add: unique_append del: map_map)
qed

lemma unique_grid_benchmarks:
  assumes "distinct benchmarks" and "binaries \<noteq> []"
  shows "unique (map Benchmark_File (grid_rows binaries benchmarks v)) = map Some benchmarks"
proof -
  obtain b bs where b: "binaries = b # bs" using assms(2) by (cases binaries) auto
  let ?own = "map Benchmark_File (map (\<lambda>f. \<lparr>Binary = Some b, Benchmark_File = Some f,
                  Runtime_s = v b f\<rparr>) benchmarks)"
  have own: "?own = map Some benchmarks" by (simp add: o_def)
  have sub: "set (map Benchmark_File (grid_rows bs benchmarks v)) \<subseteq> set (map Some benchmarks)"
    by (auto simp: grid_rows_def)
  then have f: "filter (\<lambda>y. y \<notin> set ?own) (map Benchmark_File (grid_rows bs benchmarks v)) = []"
    unfolding own by (auto simp: filter_empty_conv)
  have "map Benchmark_File (grid_rows binaries benchmarks v) =
      ?own @ map Benchmark_File (grid_rows bs benchmarks v)"
    by (simp add: grid_rows_def b)
  then have "unique (map Benchmark_File (grid_rows binaries benchmarks v)) = unique ?own"
    using f by (simp add: unique_append unique_Nil del: map_map)
  also have "\<dots> = map Some benchmarks"
    unfolding own using assms(1) by (simp add: unique_distinct distinct_map)
  finally show ?thesis .
qed


lemma bar_call_grid:
  assumes "rows data = grid_rows binaries benchmarks v"
      and "distinct binaries" and "b \<in> set binaries"
      and "''Runtime (s)'' \<in> set (columns data)"
  shows "bar_call data (map Some benchmarks) w i (Some b) =
           Inr (Bar (map (\<lambda>p. real p + real i * w) [0..<length benchmarks])
                    (map (v b) benchmarks) w (path_name b))"
proof -
  have h: "column_Runtime_s data
      (filter (\<lambda>r. Some b \<noteq> None \<and> Binary r = Some b) (rows data)) = Inr (map (v b) benchmarks)"
    unfolding assms(1) filter_grid_binary [OF assms(2,3)]
    using assms(4) by (simp add: column_Runtime_s_def o_def)
  have "\<exists>bars. broadcast_bars (map (\<lambda>p. real p + real i * w) [0..<length benchmarks])
      (map (v b) benchmarks) = Inr bars"
    by (simp add: broadcast_bars_def)
  then obtain bars where "broadcast_bars (map (\<lambda>p. real p + real i * w) [0..<length benchmarks])
      (map (v b) benchmarks) = Inr bars" by blast
  with h show ?thesis
    by (simp add: bar_call_def Let_def)
qed

lemma bar_loop_grid:
  assumes "rows data = grid_rows binaries benchmarks v"
      and "distinct binaries" and "set bs \<subseteq> set binaries"
      and "''Runtime (s)'' \<in> set (columns data)"
  shows "bar_loop data (map Some benchmarks) w i (map Some bs) =
           (grouped_bars benchmarks v w i bs, None)"
  using assms(3)
proof (induction bs arbitrary: i)
  case Nil
  then show ?case by (simp add: grouped_bars_def)
next
  case (Cons b bs)
  then have b: "b \<in> set binaries" and bs: "set bs \<subseteq> set binaries" by simp_all
  show ?case
    using bar_call_grid [OF assms(1,2) b assms(4), of w i] Cons.IH [OF bs, of "Suc i"]
    by (simp add: grouped_bars_def)
qed

lemma stems_present: "stems (map Some benchmarks) = Inr (map path_stem benchmarks)"
  by (induction benchmarks) simp_all

text \<open>
  For a complete table the renderer draws what the specification describes: for the
  binary at index \<open>i\<close> one bar per benchmark, the bar of the benchmark at index \<open>p\<close> at
  position \<open>p + i * width\<close>, next to the bars of the other binaries for that benchmark,
  and with the mean runtime of that binary on that benchmark as its height.
\<close>

lemma complete_table_chart:
  assumes "rows data = grid_rows binaries benchmarks v"
      and "distinct binaries" and "distinct benchmarks"
      and "binaries \<noteq> []" and "benchmarks \<noteq> []"
      and "''Binary'' \<in> set (columns data)" and "''Benchmark File'' \<in> set (columns data)"
      and "''Runtime (s)'' \<in> set (columns data)"
  shows "create_bar_chart savefig data output_path =
           (setup_calls @
            grouped_bars benchmarks v (0.8 / real (length binaries)) 0 binaries @
            axis_labels @
            ticks_and_legend (length benchmarks) (map path_stem benchmarks) @
            fst (save_or_show savefig output_path),
            snd (save_or_show savefig output_path))"
proof -
  have ub: "unique (map Binary (rows data)) = map Some binaries"
    unfolding assms(1) by (rule unique_grid_binaries [OF assms(2,5)])
  have uf: "unique (map Benchmark_File (rows data)) = map Some benchmarks"
    unfolding assms(1) by (rule unique_grid_benchmarks [OF assms(3,4)])
  have ne: "unique (map Binary (rows data)) \<noteq> []"
    using ub assms(4) by simp
  have loop: "bar_loop data (map Some benchmarks) (0.8 / real (length binaries)) 0
      (map Some binaries) =
      (grouped_bars benchmarks v (0.8 / real (length binaries)) 0 binaries, None)"
    by (rule bar_loop_grid [OF assms(1,2) subset_refl assms(8)])
  show ?thesis
    unfolding create_bar_chart_unfold [OF assms(7,6) ne] ub uf
    by (simp only: loop stems_present length_map prod.case option.case sum.case
          case_prod_beta fst_conv snd_conv)
qed

lemma grouped_bars_heights:
  assumes "i < length binaries"
  shows "bars_of (grouped_bars benchmarks v w 0 binaries ! i) =
           zip (map (\<lambda>p. real p + real i * w) [0..<length benchmarks])
               (map (v (binaries ! i)) benchmarks)"
proof -
  have e: "List.enumerate 0 binaries ! i = (i, binaries ! i)"
    using assms by (simp add: nth_enumerate_eq)
  have "grouped_bars benchmarks v w 0 binaries ! i =
      Bar (map (\<lambda>p. real p + real i * w) [0..<length benchmarks])
          (map (v (binaries ! i)) benchmarks) w (path_name (binaries ! i))"
    unfolding grouped_bars_def using assms e by simp
  then show ?thesis
    by (simp add: broadcast_bars_def)
qed

end
